theory Spec2Isabelle
  imports Main "HOL-Library.Char_ord" "HOL-Library.List_Lexorder"
begin

section \<open>Text\<close>

text \<open>
  A Python \<open>str\<close> is modelled as a \<open>string\<close>.  The characters below 128 are the ASCII
  characters with Python's classification; a character from 128 on stands for a symbol that
  is neither a letter, a digit nor white space and has no other case.
\<close>

definition is_digit :: "char \<Rightarrow> bool" where
  "is_digit c = (48 \<le> (of_char c :: nat) \<and> (of_char c :: nat) \<le> 57)"

definition is_upper :: "char \<Rightarrow> bool" where
  "is_upper c = (65 \<le> (of_char c :: nat) \<and> (of_char c :: nat) \<le> 90)"

definition is_lower :: "char \<Rightarrow> bool" where
  "is_lower c = (97 \<le> (of_char c :: nat) \<and> (of_char c :: nat) \<le> 122)"

definition is_alpha :: "char \<Rightarrow> bool" where
  "is_alpha c = (is_upper c \<or> is_lower c)"

text \<open>The class \<open>\w\<close>: letters, digits and the underscore.\<close>

definition is_word :: "char \<Rightarrow> bool" where
  "is_word c = (is_alpha c \<or> is_digit c \<or> c = CHR ''_'')"

text \<open>
  White space as \<open>str.strip()\<close> and \<open>\s\<close> see it: tab, line feed, vertical tab, form
  feed, carriage return, the four separators 0x1C to 0x1F, and the blank.
\<close>

definition is_space :: "char \<Rightarrow> bool" where
  "is_space c = ((9 \<le> (of_char c :: nat) \<and> (of_char c :: nat) \<le> 13) \<or>
                 (28 \<le> (of_char c :: nat) \<and> (of_char c :: nat) \<le> 32))"

definition to_upper :: "char \<Rightarrow> char" where
  "to_upper c = (if is_lower c then char_of ((of_char c :: nat) - 32) else c)"

definition to_lower :: "char \<Rightarrow> char" where
  "to_lower c = (if is_upper c then char_of ((of_char c :: nat) + 32) else c)"

definition upper :: "string \<Rightarrow> string" where
  "upper s = map to_upper s"

definition lower :: "string \<Rightarrow> string" where
  "lower s = map to_lower s"

text \<open>Python truthiness of an optional string: \<open>None\<close> and the empty string are false.\<close>

definition truthy :: "string option \<Rightarrow> bool" where
  "truthy v = (case v of None \<Rightarrow> False | Some s \<Rightarrow> s \<noteq> [])"

text \<open>\<open>s.strip()\<close> and \<open>s.rstrip("\n")\<close>.\<close>

definition rstrip_while :: "(char \<Rightarrow> bool) \<Rightarrow> string \<Rightarrow> string" where
  "rstrip_while P s = rev (dropWhile P (rev s))"

definition strip :: "string \<Rightarrow> string" where
  "strip s = rstrip_while is_space (dropWhile is_space s)"

definition rstrip_nl :: "string \<Rightarrow> string" where
  "rstrip_nl s = rstrip_while (\<lambda>c. c = CHR 0x0A) s"

text \<open>\<open>s.startswith(p)\<close>, \<open>s.endswith(p)\<close>, \<open>p in s\<close> and \<open>s.find(p)\<close> (\<open>None\<close> for -1).\<close>

fun startswith :: "string \<Rightarrow> string \<Rightarrow> bool" where
  "startswith s [] = True"
| "startswith [] (p # ps) = False"
| "startswith (c # cs) (p # ps) = (c = p \<and> startswith cs ps)"

definition endswith :: "string \<Rightarrow> string \<Rightarrow> bool" where
  "endswith s p = startswith (rev s) (rev p)"

fun find_sub :: "string \<Rightarrow> string \<Rightarrow> nat option" where
  "find_sub [] p = (if p = [] then Some 0 else None)"
| "find_sub (c # cs) p =
     (if startswith (c # cs) p then Some 0 else map_option Suc (find_sub cs p))"

definition has_sub :: "string \<Rightarrow> string \<Rightarrow> bool" where
  "has_sub p s = (find_sub s p \<noteq> None)"

text \<open>
  \<open>s.splitlines()\<close>: a line ends at a line feed, a carriage return (with the line feed
  after it, when there is one), a vertical tab, a form feed, or one of the separators
  0x1C, 0x1D, 0x1E; the line ends are dropped and no empty last line is produced.
\<close>

definition is_linebreak :: "char \<Rightarrow> bool" where
  "is_linebreak c = ((10 \<le> (of_char c :: nat) \<and> (of_char c :: nat) \<le> 13) \<or>
                     (28 \<le> (of_char c :: nat) \<and> (of_char c :: nat) \<le> 30))"

fun splitlines_from :: "string \<Rightarrow> string \<Rightarrow> string list" where
  "splitlines_from acc [] = (if acc = [] then [] else [rev acc])"
| "splitlines_from acc [c] =
     (if is_linebreak c then [rev acc] else [rev (c # acc)])"
| "splitlines_from acc (c # d # cs) =
     (if c = CHR 0x0D \<and> d = CHR 0x0A then rev acc # splitlines_from [] cs
      else if is_linebreak c then rev acc # splitlines_from [] (d # cs)
      else splitlines_from (c # acc) (d # cs))"

definition splitlines :: "string \<Rightarrow> string list" where
  "splitlines s = splitlines_from [] s"

text \<open>Decimal numerals: \<open>int(s)\<close> on a string of digits, and \<open>"%0wd" % n\<close>.\<close>

definition digit_val :: "char \<Rightarrow> nat" where
  "digit_val c = (of_char c :: nat) - 48"

definition int_of_digits :: "string \<Rightarrow> nat" where
  "int_of_digits s = foldl (\<lambda>n c. 10 * n + digit_val c) 0 s"

definition digit_char :: "nat \<Rightarrow> char" where
  "digit_char d = char_of (48 + d mod 10)"

fun pad :: "nat \<Rightarrow> nat \<Rightarrow> string" where
  "pad 0 n = (if n = 0 then [] else pad 0 (n div 10) @ [digit_char n])"
| "pad (Suc w) n = pad w (n div 10) @ [digit_char n]"

section \<open>Regular expressions\<close>

text \<open>
  The patterns of the sources are values of \<open>rx\<close>; \<open>ms\<close> lists the ways a pattern can
  match at a position in the order in which Python's backtracking matcher tries them
  (a greedy repetition tries the longest run first, an alternation its left branch
  first), so the first element is the match \<open>re.match\<close> reports.  Repetition is needed
  on single-character classes only.
\<close>

datatype cls = Digit | Word | Space | Dot | Alpha | Upper | Lower | Lit char | LitCI char
  | OneOf "cls list" | NotOf "cls list"

fun cls_ok :: "cls \<Rightarrow> char \<Rightarrow> bool" where
  "cls_ok Digit c = is_digit c"
| "cls_ok Word c = is_word c"
| "cls_ok Space c = is_space c"
| "cls_ok Dot c = (c \<noteq> CHR 0x0A)"
| "cls_ok Alpha c = is_alpha c"
| "cls_ok Upper c = is_upper c"
| "cls_ok Lower c = is_lower c"
| "cls_ok (Lit k) c = (c = k)"
| "cls_ok (LitCI k) c = (to_lower c = to_lower k)"
| "cls_ok (OneOf ks) c = list_ex (\<lambda>k. cls_ok k c) ks"
| "cls_ok (NotOf ks) c = (\<not> list_ex (\<lambda>k. cls_ok k c) ks)"

datatype rx = Eps | Atom cls | Seq rx rx | Alt rx rx | Star cls | Grp nat rx
  | Bol | Eol | Wordb

text \<open>
  A matcher state: the character before the position (none at the start of the string),
  the text still to be read, and the groups closed so far, the latest first.
\<close>

record mstate =
  prev :: "char option"
  todo :: string
  groups :: "(nat \<times> string) list"

fun star_states :: "cls \<Rightarrow> char option \<Rightarrow> string \<Rightarrow> (nat \<times> string) list \<Rightarrow> mstate list" where
  "star_states c b [] g = [\<lparr>prev = b, todo = [], groups = g\<rparr>]"
| "star_states c b (x # xs) g =
     (if cls_ok c x
      then star_states c (Some x) xs g @ [\<lparr>prev = b, todo = x # xs, groups = g\<rparr>]
      else [\<lparr>prev = b, todo = x # xs, groups = g\<rparr>])"

definition word_at :: "char option \<Rightarrow> bool" where
  "word_at b = (case b of None \<Rightarrow> False | Some c \<Rightarrow> is_word c)"

definition next_char :: "string \<Rightarrow> char option" where
  "next_char s = (case s of [] \<Rightarrow> None | x # _ \<Rightarrow> Some x)"

text \<open>
  \<open>Bol\<close> is \<open>^\<close> and \<open>Eol\<close> is \<open>$\<close> without the MULTILINE flag (the end of the string,
  or just before a line feed that ends it); \<open>Wordb\<close> is \<open>\b\<close>.
\<close>

fun ms :: "rx \<Rightarrow> mstate \<Rightarrow> mstate list" where
  "ms Eps s = [s]"
| "ms (Atom c) s =
     (case todo s of [] \<Rightarrow> []
      | x # xs \<Rightarrow> if cls_ok c x then [s\<lparr>prev := Some x, todo := xs\<rparr>] else [])"
| "ms (Seq a b) s = concat (map (ms b) (ms a s))"
| "ms (Alt a b) s = ms a s @ ms b s"
| "ms (Star c) s = star_states c (prev s) (todo s) (groups s)"
| "ms (Grp n a) s =
     map (\<lambda>s'. s'\<lparr>groups := (n, take (length (todo s) - length (todo s')) (todo s))
                                # groups s'\<rparr>)
       (ms a s)"
| "ms Bol s = (if prev s = None then [s] else [])"
| "ms Eol s = (if todo s = [] \<or> todo s = [CHR 0x0A] then [s] else [])"
| "ms Wordb s = (if word_at (prev s) \<noteq> word_at (next_char (todo s)) then [s] else [])"

type_synonym captures = "(nat \<times> string) list"

definition first_of :: "mstate list \<Rightarrow> captures option" where
  "first_of rs = (case rs of [] \<Rightarrow> None | s # _ \<Rightarrow> Some (groups s))"

text \<open>\<open>pattern.match(s)\<close> and \<open>pattern.search(s)\<close>; \<open>None\<close> is Python's \<open>None\<close>.\<close>

definition rx_match :: "rx \<Rightarrow> string \<Rightarrow> captures option" where
  "rx_match r s = first_of (ms r \<lparr>prev = None, todo = s, groups = []\<rparr>)"

fun search_from :: "rx \<Rightarrow> char option \<Rightarrow> string \<Rightarrow> captures option" where
  "search_from r b [] = first_of (ms r \<lparr>prev = b, todo = [], groups = []\<rparr>)"
| "search_from r b (x # xs) =
     (case first_of (ms r \<lparr>prev = b, todo = x # xs, groups = []\<rparr>) of
        Some g \<Rightarrow> Some g
      | None \<Rightarrow> search_from r (Some x) xs)"

definition rx_search :: "rx \<Rightarrow> string \<Rightarrow> captures option" where
  "rx_search r s = search_from r None s"

text \<open>\<open>m.group(n)\<close> for a group that took part in the match.\<close>

definition grp :: "captures \<Rightarrow> nat \<Rightarrow> string" where
  "grp g n = (case map_of g n of None \<Rightarrow> [] | Some t \<Rightarrow> t)"

text \<open>Derived forms: \<open>c+\<close>, \<open>r?\<close>, a sequence, a literal, \<open>r{n}\<close>.\<close>

definition Many1 :: "cls \<Rightarrow> rx" where
  "Many1 c = Seq (Atom c) (Star c)"

definition Opt :: "rx \<Rightarrow> rx" where
  "Opt r = Alt r Eps"

fun seqs :: "rx list \<Rightarrow> rx" where
  "seqs [] = Eps"
| "seqs [r] = r"
| "seqs (r # rs) = Seq r (seqs rs)"

definition lit :: "string \<Rightarrow> rx" where
  "lit s = seqs (map (\<lambda>c. Atom (Lit c)) s)"

definition lit_ci :: "string \<Rightarrow> rx" where
  "lit_ci s = seqs (map (\<lambda>c. Atom (LitCI c)) s)"

definition rep :: "nat \<Rightarrow> rx \<Rightarrow> rx" where
  "rep n r = seqs (replicate n r)"

text \<open>\<open>\d{2}:\d{2}:\d{2}\<close>, shared by several patterns.\<close>

definition hms_rx :: rx where
  "hms_rx = seqs [rep 2 (Atom Digit), Atom (Lit CHR '':''), rep 2 (Atom Digit),
                  Atom (Lit CHR '':''), rep 2 (Atom Digit)]"

section \<open>Dates and times\<close>

text \<open>A \<open>datetime\<close> value, and the exceptions the ingestion code can raise.\<close>

record datetime =
  dt_year :: nat
  dt_month :: nat
  dt_day :: nat
  dt_hour :: nat
  dt_minute :: nat
  dt_second :: nat
  dt_microsecond :: nat

datatype error = ValueError | FileNotFoundError

definition is_leap :: "nat \<Rightarrow> bool" where
  "is_leap y = (y mod 4 = 0 \<and> (y mod 100 \<noteq> 0 \<or> y mod 400 = 0))"

definition days_in_month :: "nat \<Rightarrow> nat \<Rightarrow> nat" where
  "days_in_month y m =
     (if m = 2 then (if is_leap y then 29 else 28)
      else if m = 4 \<or> m = 6 \<or> m = 9 \<or> m = 11 then 30 else 31)"

text \<open>
  \<open>datetime(year, month, day, hour, minute, second)\<close>: raises \<open>ValueError\<close> for a field
  out of range.
\<close>

definition mk_datetime :: "nat \<Rightarrow> nat \<Rightarrow> nat \<Rightarrow> nat \<Rightarrow> nat \<Rightarrow> nat \<Rightarrow> error + datetime" where
  "mk_datetime y mo d h mi s =
     (if 1 \<le> y \<and> y \<le> 9999 \<and> 1 \<le> mo \<and> mo \<le> 12 \<and> 1 \<le> d \<and> d \<le> days_in_month y mo \<and>
         h < 24 \<and> mi < 60 \<and> s < 60
      then Inr \<lparr>dt_year = y, dt_month = mo, dt_day = d, dt_hour = h, dt_minute = mi,
                dt_second = s, dt_microsecond = 0\<rparr>
      else Inl ValueError)"

text \<open>
  \<open>dt.isoformat(sep=" ")\<close>: the microseconds are printed only when they are not zero.
\<close>

definition isoformat :: "datetime \<Rightarrow> string" where
  "isoformat dt =
     pad 4 (dt_year dt) @ ''-'' @ pad 2 (dt_month dt) @ ''-'' @ pad 2 (dt_day dt) @ '' '' @
     pad 2 (dt_hour dt) @ '':'' @ pad 2 (dt_minute dt) @ '':'' @ pad 2 (dt_second dt) @
     (if dt_microsecond dt = 0 then [] else ''.'' @ pad 6 (dt_microsecond dt))"

text \<open>
  \<open>dt.strftime("%Y-%m-%d %H:%M:%S")\<close>.  The year is printed with four digits; for a
  year below 1000 the C library decides whether \<open>%Y\<close> pads, and the model pads.
\<close>

definition strftime :: "datetime \<Rightarrow> string" where
  "strftime dt =
     pad 4 (dt_year dt) @ ''-'' @ pad 2 (dt_month dt) @ ''-'' @ pad 2 (dt_day dt) @ '' '' @
     pad 2 (dt_hour dt) @ '':'' @ pad 2 (dt_minute dt) @ '':'' @ pad 2 (dt_second dt)"

text \<open>
  The three fields of a time string of the shape \<open>\d{2}:\d{2}:\d{2}\<close>, as \<open>%H:%M:%S\<close>
  reads them.
\<close>

definition hms_hour :: "string \<Rightarrow> nat" where
  "hms_hour t = int_of_digits (take 2 t)"

definition hms_minute :: "string \<Rightarrow> nat" where
  "hms_minute t = int_of_digits (take 2 (drop 3 t))"

definition hms_second :: "string \<Rightarrow> nat" where
  "hms_second t = int_of_digits (take 2 (drop 6 t))"

text \<open>
  \<open>datetime.strptime(f"{year}-{month:02d}-{day:02d} {time_str}", "%Y-%m-%d %H:%M:%S")\<close>
  for a \<open>time_str\<close> of the shape \<open>\d{2}:\d{2}:\d{2}\<close>.  The directive \<open>%Y\<close> reads exactly
  four digits, so a year that \<open>f"{year}"\<close> prints with fewer or more digits, or with a
  sign, is a \<open>ValueError\<close>; so is a month, day, hour, minute or second out of range
  (a second of 60 or 61 passes the directive and is refused by \<open>datetime\<close>).
\<close>

definition strptime_ymd :: "int \<Rightarrow> nat \<Rightarrow> nat \<Rightarrow> string \<Rightarrow> error + datetime" where
  "strptime_ymd year month day time_str =
     (if 1000 \<le> year \<and> year \<le> 9999
      then mk_datetime (nat year) month day (hms_hour time_str) (hms_minute time_str)
             (hms_second time_str)
      else Inl ValueError)"

text \<open>
  The month abbreviations \<open>%b\<close> reads (C locale), compared without regard to case.
\<close>

definition month_abbr :: "string \<Rightarrow> nat option" where
  "month_abbr s =
     map_of [(''jan'', 1), (''feb'', 2), (''mar'', 3), (''apr'', 4), (''may'', 5),
             (''jun'', 6), (''jul'', 7), (''aug'', 8), (''sep'', 9), (''oct'', 10),
             (''nov'', 11), (''dec'', 12)] (lower s)"

text \<open>
  \<open>datetime.strptime(ts_str, "%d-%b-%Y %H:%M:%S")\<close> for a \<open>ts_str\<close> of the shape
  \<open>\d{2}-[A-Za-z]{3}-\d{4}\s+\d{2}:\d{2}:\d{2}\<close>.
\<close>

definition strptime_dmy :: "string \<Rightarrow> error + datetime" where
  "strptime_dmy ts_str =
     (let day = int_of_digits (take 2 ts_str);
          mon = month_abbr (take 3 (drop 3 ts_str));
          year = int_of_digits (take 4 (drop 7 ts_str));
          time_str = dropWhile is_space (drop 11 ts_str)
      in case mon of
           None \<Rightarrow> Inl ValueError
         | Some month \<Rightarrow>
             mk_datetime year month day (hms_hour time_str) (hms_minute time_str)
               (hms_second time_str))"

section \<open>Log records\<close>

text \<open>
  The dict a line parser returns, and a row of the table \<open>logs\<close>: the same five columns
  and the three optional cause columns (\<open>None\<close> is SQL NULL).  The store is the list of
  rows in insertion order.
\<close>

record parsed =
  timestamp :: string
  source :: string
  level :: string
  host :: string
  message :: string

record log_row = parsed +
  cause_group :: "string option"
  cause_reason :: "string option"
  cause_action :: "string option"

type_synonym store = "log_row list"

text \<open>\<open>insert_log\<close> (src/models.py): one row appended and committed.\<close>

definition insert_log ::
  "string \<Rightarrow> string \<Rightarrow> string \<Rightarrow> string \<Rightarrow> string \<Rightarrow> string option \<Rightarrow> string option \<Rightarrow>
   string option \<Rightarrow> store \<Rightarrow> store" where
  "insert_log ts src lvl hst msg cg cr ca db =
     db @ [\<lparr>timestamp = ts, source = src, level = lvl, host = hst, message = msg,
            cause_group = cg, cause_reason = cr, cause_action = ca\<rparr>]"

section \<open>The syslog parser (src/parser\_linux.py)\<close>

text \<open>
  \<open>^(?P<month>\w{3})\s+(?P<day>\d{1,2})\s+(?P<time>\d{2}:\d{2}:\d{2})\s+(?P<host>[\w\.\-]+)\s+(?P<rest>.*)$\<close>
  with the groups numbered 1 to 5.
\<close>

definition SYSLOG_REGEX :: rx where
  "SYSLOG_REGEX =
     seqs [Bol, Grp 1 (rep 3 (Atom Word)), Many1 Space,
           Grp 2 (Seq (Atom Digit) (Opt (Atom Digit))), Many1 Space,
           Grp 3 hms_rx, Many1 Space,
           Grp 4 (Many1 (OneOf [Word, Lit CHR ''.'', Lit CHR ''-''])), Many1 Space,
           Grp 5 (Star Dot), Eol]"

definition MONTHS :: "string \<Rightarrow> nat option" where
  "MONTHS =
     map_of [(''Jan'', 1), (''Feb'', 2), (''Mar'', 3), (''Apr'', 4), (''May'', 5),
             (''Jun'', 6), (''Jul'', 7), (''Aug'', 8), (''Sep'', 9), (''Oct'', 10),
             (''Nov'', 11), (''Dec'', 12)]"

definition linux_guess_level :: "string \<Rightarrow> string" where
  "linux_guess_level msg =
     (let up = upper msg in
      if has_sub ''CRIT'' up \<or> has_sub ''FATAL'' up then ''CRITICAL''
      else if has_sub ''ERROR'' up \<or> has_sub '' ERR '' up then ''ERROR''
      else if has_sub ''WARN'' up then ''WARN''
      else ''INFO'')"

text \<open>
  \<open>parse_syslog_line(line, year)\<close>, with the instant \<open>datetime.now()\<close> returns as the
  first argument.  \<open>Inr None\<close> is the return value \<open>None\<close>; \<open>year or now.year\<close> takes
  the current year for \<open>None\<close> and for 0.
\<close>

definition parse_syslog_line :: "datetime \<Rightarrow> string \<Rightarrow> int option \<Rightarrow> error + parsed option" where
  "parse_syslog_line now line year =
     (case rx_match SYSLOG_REGEX line of
        None \<Rightarrow> Inr None
      | Some m \<Rightarrow>
          (let year' = (case year of None \<Rightarrow> int (dt_year now)
                        | Some y \<Rightarrow> if y = 0 then int (dt_year now) else y);
               month = (case MONTHS (grp m 1) of None \<Rightarrow> dt_month now | Some k \<Rightarrow> k);
               day = int_of_digits (grp m 2);
               time_str = grp m 3;
               host' = grp m 4;
               rest = strip (grp m 5)
           in case strptime_ymd year' month day time_str of
                Inl e \<Rightarrow> Inl e
              | Inr dt \<Rightarrow>
                  Inr (Some \<lparr>timestamp = isoformat dt, source = ''syslog'',
                             level = linux_guess_level rest, host = host',
                             message = rest\<rparr>)))"

section \<open>The Zabbix parsers (src/parser\_zabbix\_server.py, src/parser\_zabbix\_proxy.py)\<close>

text \<open>
  \<open>^\s*(?P<pid>\d+):(?P<date>\d{8}):(?P<time>\d{6})(?:\.\d+)?:\s*(?P<msg>.*)$\<close>, the
  same pattern in both modules, with the groups numbered 1 to 4.
\<close>

definition ZBX_SERVER_REGEX :: rx where
  "ZBX_SERVER_REGEX =
     seqs [Bol, Star Space, Grp 1 (Many1 Digit), Atom (Lit CHR '':''),
           Grp 2 (rep 8 (Atom Digit)), Atom (Lit CHR '':''),
           Grp 3 (rep 6 (Atom Digit)),
           Opt (Seq (Atom (Lit CHR ''.'')) (Many1 Digit)), Atom (Lit CHR '':''),
           Star Space, Grp 4 (Star Dot), Eol]"

definition ZBX_PROXY_REGEX :: rx where
  "ZBX_PROXY_REGEX =
     seqs [Bol, Star Space, Grp 1 (Many1 Digit), Atom (Lit CHR '':''),
           Grp 2 (rep 8 (Atom Digit)), Atom (Lit CHR '':''),
           Grp 3 (rep 6 (Atom Digit)),
           Opt (Seq (Atom (Lit CHR ''.'')) (Many1 Digit)), Atom (Lit CHR '':''),
           Star Space, Grp 4 (Star Dot), Eol]"

text \<open>\<open>guess_level\<close> of the server module and of the proxy module.\<close>

definition zbx_server_guess_level :: "string \<Rightarrow> string" where
  "zbx_server_guess_level msg =
     (let up = upper msg in
      if has_sub ''FATAL'' up \<or> has_sub ''CRITICAL'' up then ''CRITICAL''
      else if has_sub ''ERROR'' up \<or> has_sub ''FAILED'' up \<or> has_sub ''UNABLE'' up
        then ''ERROR''
      else if has_sub ''WARN'' up \<or> has_sub ''WARNING'' up then ''WARN''
      else if has_sub ''DEBUG'' up then ''DEBUG''
      else ''INFO'')"

definition zbx_proxy_guess_level :: "string \<Rightarrow> string" where
  "zbx_proxy_guess_level msg =
     (let up = upper msg in
      if has_sub ''FATAL'' up \<or> has_sub ''CRITICAL'' up then ''CRITICAL''
      else if has_sub ''ERROR'' up \<or> has_sub ''FAILED'' up \<or> has_sub ''UNABLE'' up
        then ''ERROR''
      else if has_sub ''WARN'' up \<or> has_sub ''WARNING'' up then ''WARN''
      else if has_sub ''DEBUG'' up then ''DEBUG''
      else ''INFO'')"

text \<open>
  The date and time fields both parsers cut out of the groups \<open>date\<close> and \<open>time\<close>.
\<close>

definition zbx_datetime :: "string \<Rightarrow> string \<Rightarrow> error + datetime" where
  "zbx_datetime raw_date raw_time =
     mk_datetime (int_of_digits (take 4 raw_date))
       (int_of_digits (take 2 (drop 4 raw_date)))
       (int_of_digits (take 2 (drop 6 raw_date)))
       (int_of_digits (take 2 raw_time))
       (int_of_digits (take 2 (drop 2 raw_time)))
       (int_of_digits (take 2 (drop 4 raw_time)))"

text \<open>
  \<open>parse_zabbix_server_line(line, host)\<close>.  A line the pattern does not match is kept:
  the else branch builds a record from the current instant and the stripped line.
\<close>

definition parse_zabbix_server_line ::
  "datetime \<Rightarrow> string \<Rightarrow> string \<Rightarrow> error + parsed option" where
  "parse_zabbix_server_line now line0 hst =
     (let line = rstrip_nl line0 in
      case rx_match ZBX_SERVER_REGEX line of
        Some m \<Rightarrow>
          (let msg = strip (grp m 4) in
           case zbx_datetime (grp m 2) (grp m 3) of
             Inl e \<Rightarrow> Inl e
           | Inr dt \<Rightarrow>
               Inr (Some \<lparr>timestamp = isoformat dt, source = ''zabbix_server'',
                          level = zbx_server_guess_level msg, host = hst, message = msg\<rparr>))
      | None \<Rightarrow>
          (let msg = strip line in
           Inr (Some \<lparr>timestamp = isoformat now, source = ''zabbix_server_raw'',
                      level = zbx_server_guess_level msg, host = hst, message = msg\<rparr>)))"

definition parse_zabbix_proxy_line ::
  "datetime \<Rightarrow> string \<Rightarrow> string \<Rightarrow> error + parsed option" where
  "parse_zabbix_proxy_line now line0 hst =
     (let line = rstrip_nl line0 in
      case rx_match ZBX_PROXY_REGEX line of
        Some m \<Rightarrow>
          (let msg = strip (grp m 4) in
           case zbx_datetime (grp m 2) (grp m 3) of
             Inl e \<Rightarrow> Inl e
           | Inr dt \<Rightarrow>
               Inr (Some \<lparr>timestamp = isoformat dt, source = ''zabbix_proxy'',
                          level = zbx_proxy_guess_level msg, host = hst, message = msg\<rparr>))
      | None \<Rightarrow>
          (let msg = strip line in
           Inr (Some \<lparr>timestamp = isoformat now, source = ''zabbix_proxy_raw'',
                      level = zbx_proxy_guess_level msg, host = hst, message = msg\<rparr>)))"

section \<open>The format sniffer (src/models.py)\<close>

text \<open>
  A seekable stream: what it holds (bytes, or text for a text stream) and the read
  position.  \<open>read(n)\<close> returns at most \<open>n\<close> items from the position on (all of them
  for a negative \<open>n\<close>) and moves the position past them; \<open>tell\<close> reports the position and
  \<open>seek\<close> sets it.
\<close>

datatype content = Bytes "nat list" | Text string

record stream =
  content :: content
  pos :: nat

definition tell :: "stream \<Rightarrow> nat" where
  "tell st = pos st"

definition seek :: "nat \<Rightarrow> stream \<Rightarrow> stream" where
  "seek p st = st\<lparr>pos := p\<rparr>"

definition window :: "int \<Rightarrow> nat \<Rightarrow> 'a list \<Rightarrow> 'a list" where
  "window n p xs = (if n < 0 then drop p xs else take (nat n) (drop p xs))"

definition content_length :: "content \<Rightarrow> nat" where
  "content_length c = (case c of Bytes bs \<Rightarrow> length bs | Text t \<Rightarrow> length t)"

definition read :: "int \<Rightarrow> stream \<Rightarrow> content \<times> stream" where
  "read n st =
     (let chunk = (case content st of
                     Bytes bs \<Rightarrow> Bytes (window n (pos st) bs)
                   | Text t \<Rightarrow> Text (window n (pos st) t))
      in (chunk, st\<lparr>pos := pos st + content_length chunk\<rparr>))"

text \<open>The three timestamp shapes and the level keywords of \<open>is_probably_log\<close>.\<close>

definition php_ts_pattern :: rx where
  "php_ts_pattern =
     seqs [Bol, Atom (Lit CHR ''[''), rep 2 (Atom Digit), Atom (Lit CHR ''-''),
           rep 3 (Atom Alpha), Atom (Lit CHR ''-''), rep 4 (Atom Digit), Many1 Space,
           hms_rx, Many1 Space, Many1 (NotOf [Lit CHR '']'']), Atom (Lit CHR '']'')]"

definition iso_ts_rx :: rx where
  "iso_ts_rx =
     seqs [rep 4 (Atom Digit), Atom (Lit CHR ''-''), rep 2 (Atom Digit),
           Atom (Lit CHR ''-''), rep 2 (Atom Digit),
           Atom (OneOf [Lit CHR '' '', Lit CHR ''T'']), hms_rx]"

definition iso_ts_pattern :: rx where
  "iso_ts_pattern = Seq Bol iso_ts_rx"

definition syslog_ts_pattern :: rx where
  "syslog_ts_pattern =
     seqs [Bol, Atom Upper, rep 2 (Atom Lower), Many1 Space,
           rep 2 (Atom (OneOf [Lit CHR '' '', Digit])), Many1 Space, hms_rx]"

definition level_keywords :: rx where
  "level_keywords =
     seqs [Wordb,
           Grp 1 (Alt (lit_ci ''ERROR'')
                 (Alt (Seq (lit_ci ''WARN'') (Opt (Grp 2 (lit_ci ''ING''))))
                 (Alt (lit_ci ''INFO'')
                 (Alt (lit_ci ''CRITICAL'')
                 (Alt (lit_ci ''NOTICE'') (lit_ci ''EXCEPTION'')))))),
           Wordb]"

text \<open>The body of the scoring loop: whether a line counts.\<close>

definition line_scores :: "string \<Rightarrow> bool" where
  "line_scores ln =
     (if length ln < 15 then False
      else
        let has_ts = (rx_search php_ts_pattern ln \<noteq> None \<or>
                      rx_search iso_ts_pattern ln \<noteq> None \<or>
                      rx_search syslog_ts_pattern ln \<noteq> None);
            has_level = (rx_search level_keywords ln \<noteq> None)
        in has_ts \<or> has_level)"

fun count_scored :: "string list \<Rightarrow> nat \<Rightarrow> nat" where
  "count_scored [] scored_lines = scored_lines"
| "count_scored (ln # lns) scored_lines =
     count_scored lns (if line_scores ln then scored_lines + 1 else scored_lines)"

text \<open>
  The decision on the text of the chunk.  The two float comparisons are written over the
  integers: \<open>scored_lines / total_considered >= 0.3\<close> with at most 20 lines is
  \<open>10 * scored_lines \<ge> 3 * total_considered\<close>.
\<close>

definition text_looks_like_log :: "string \<Rightarrow> string option \<Rightarrow> bool" where
  "text_looks_like_log txt filename =
     (let lines = map strip (filter (\<lambda>ln. strip ln \<noteq> []) (splitlines txt)) in
      if lines = [] then False
      else
        let scored_lines = count_scored (take 20 lines) 0;
            total_considered = min (length lines) 20
        in if scored_lines \<ge> 2 then True
           else if total_considered > 0 \<and> 10 * scored_lines \<ge> 3 * total_considered then True
           else if truthy filename \<and>
                   (let fname = lower (the filename) in
                    (endswith fname ''.log'' \<or> endswith fname ''.txt'' \<or>
                     endswith fname ''.out'' \<or> endswith fname ''.err'') \<and> scored_lines \<ge> 1)
             then True
           else False)"

text \<open>
  The decision on the chunk read.  For bytes, \<open>non_text / len(chunk) > 0.15\<close> is
  \<open>20 * non_text > 3 * len(chunk)\<close>; \<open>decode\<close> is
  \<open>bytes.decode("utf-8", errors="ignore")\<close> of the Python library.
\<close>

definition chunk_looks_like_log ::
  "(nat list \<Rightarrow> string) \<Rightarrow> content \<Rightarrow> string option \<Rightarrow> bool" where
  "chunk_looks_like_log decode chunk filename =
     (case chunk of
        Bytes bs \<Rightarrow>
          if bs = [] then False
          else
            let non_text = length (filter (\<lambda>b. b \<le> 8 \<or> b > 126) bs) in
            if 20 * non_text > 3 * length bs then False
            else text_looks_like_log (decode bs) filename
      | Text t \<Rightarrow>
          if t = [] then False else text_looks_like_log t filename)"

text \<open>
  \<open>is_probably_log(stream, filename, max_bytes)\<close>: the answer and the stream as the call
  leaves it.
\<close>

definition is_probably_log ::
  "(nat list \<Rightarrow> string) \<Rightarrow> stream \<Rightarrow> string option \<Rightarrow> int \<Rightarrow> bool \<times> stream" where
  "is_probably_log decode st filename max_bytes =
     (let pos_before = tell st;
          (chunk, st1) = read max_bytes st;
          st2 = seek pos_before st1
      in (chunk_looks_like_log decode chunk filename, st2))"

section \<open>The PHP error-log parser (src/models.py)\<close>

text \<open>
  \<open>_php_error_pattern\<close> (verbose, ignoring case), with the groups \<open>ts\<close>, \<open>tz\<close>,
  \<open>php_level\<close>, \<open>rest\<close> numbered 1 to 4.
\<close>

definition php_error_pattern :: rx where
  "php_error_pattern =
     seqs [Bol, Atom (Lit CHR ''[''),
           Grp 1 (seqs [rep 2 (Atom Digit), Atom (Lit CHR ''-''), rep 3 (Atom Alpha),
                        Atom (Lit CHR ''-''), rep 4 (Atom Digit), Many1 Space, hms_rx]),
           Many1 Space,
           Grp 2 (Many1 (NotOf [Lit CHR '']''])),
           Atom (Lit CHR '']''), Many1 Space,
           lit_ci ''PHP'', Many1 Space,
           Grp 3 (Alt (lit_ci ''Notice'')
                 (Alt (lit_ci ''Warning'')
                 (Alt (lit_ci ''Fatal error'')
                 (Alt (lit_ci ''Parse error'')
                 (Alt (lit_ci ''Deprecated'') (lit_ci ''Error'')))))),
           Atom (Lit CHR '':''), Many1 Space,
           Grp 4 (Star Dot)]"

text \<open>\<open>\d{1,3}\<close>, and \<open>(\d{1,3}(?:\.\d{1,3}){3})\s+port\s+(\d+)\<close> ignoring case.\<close>

definition digits_1_3 :: rx where
  "digits_1_3 = Seq (Atom Digit) (Opt (Seq (Atom Digit) (Opt (Atom Digit))))"

definition ip_port_pattern :: rx where
  "ip_port_pattern =
     seqs [Grp 1 (Seq digits_1_3 (rep 3 (Seq (Atom (Lit CHR ''.'')) digits_1_3))),
           Many1 Space, lit_ci ''port'', Many1 Space, Grp 2 (Many1 Digit)]"

text \<open>\<open>:\s*([^:]+)$\<close>.\<close>

definition reason_pattern :: rx where
  "reason_pattern =
     seqs [Atom (Lit CHR '':''), Star Space, Grp 1 (Many1 (NotOf [Lit CHR '':''])), Eol]"

record php_parsed =
  php_timestamp :: string
  php_level :: string
  php_message :: string
  php_cause_group :: "string option"
  php_cause_reason :: "string option"
  php_cause_action :: "string option"

text \<open>\<open>datetime_utc_now()\<close>, from the instant \<open>datetime.utcnow()\<close> returns.\<close>

definition datetime_utc_now :: "datetime \<Rightarrow> string" where
  "datetime_utc_now utcnow = strftime utcnow"

text \<open>
  The main message: the text before the first \<open>" in "\<close> that \<open>rest.lower().find\<close>
  locates, stripped, or all of \<open>rest\<close>.
\<close>

definition msg_main_of :: "string \<Rightarrow> string" where
  "msg_main_of rest =
     (case find_sub (lower rest) '' in '' of
        None \<Rightarrow> rest
      | Some in_idx \<Rightarrow> strip (take in_idx rest))"


text \<open>
  The three parts of \<open>parse_php_error_line\<close> after the match: the internal level for
  the PHP level, the cause fields for the rest of the line (from the search for an IP
  address and a port to the generic fallback), and the record.
\<close>

definition php_internal_level :: "string \<Rightarrow> string" where
  "php_internal_level php_level0 =
     (let php_level_lower = lower php_level0 in
      if has_sub ''fatal'' php_level_lower \<or> has_sub ''error'' php_level_lower then ''ERROR''
      else if has_sub ''warning'' php_level_lower then ''WARNING''
      else if has_sub ''notice'' php_level_lower then ''WARNING''
      else ''INFO'')"

definition human_reason_of :: "string \<Rightarrow> string" where
  "human_reason_of msg_main =
     (case rx_search reason_pattern msg_main of
        Some g \<Rightarrow> strip (grp g 1)
      | None \<Rightarrow> ''Erro de conex'' @ [CHR 0xE3] @ ''o'')"

definition php_cause :: "string \<Rightarrow> string option \<times> string option \<times> string option" where
  "php_cause rest =
     (let ip_port_match = rx_search ip_port_pattern rest;
          ip = map_option (\<lambda>g. grp g 1) ip_port_match;
          port = map_option (\<lambda>g. grp g 2) ip_port_match;
          msg_main = msg_main_of rest;
          cause =
            (if has_sub ''curl error'' (lower rest) \<or> ip_port_match \<noteq> None then
               (if truthy ip \<and> truthy port then
                  (Some ''network'',
                   Some (''cURL falhou ao conectar em '' @ the ip @ '':'' @ the port @
                         '' ('' @ human_reason_of msg_main @ '')''),
                   Some (''Verificar servi'' @ [CHR 0xE7] @ ''o/porta '' @ the port @
                         '' em '' @ the ip @
                         '' (controller / backend) ou regras de firewall''))
                else
                  (Some ''network'', Some msg_main,
                   Some (''Verificar conectividade de rede/servi'' @ [CHR 0xE7] @
                         ''o referenciado pelo cURL'')))
             else (None, None, None))
      in if fst cause = None then
           (Some ''aplicacao'', Some msg_main,
            Some (''Avaliar stack trace e corrigir causa raiz no c'' @ [CHR 0xF3] @
                  ''digo PHP''))
         else cause)"

text \<open>
  \<open>parse_php_error_line(line)\<close>, with the instant \<open>datetime.utcnow()\<close> returns as the
  first argument; \<open>None\<close> when the pattern does not match.
\<close>

definition parse_php_error_line :: "datetime \<Rightarrow> string \<Rightarrow> php_parsed option" where
  "parse_php_error_line utcnow line =
     (case rx_match php_error_pattern line of
        None \<Rightarrow> None
      | Some m \<Rightarrow>
          (let ts_str = grp m 1;
               php_level0 = grp m 3;
               rest = strip (grp m 4);
               timestamp' = (case strptime_dmy ts_str of
                               Inr dt \<Rightarrow> strftime dt
                             | Inl e \<Rightarrow> datetime_utc_now utcnow);
               level' = php_internal_level php_level0;
               cause = php_cause rest
           in Some \<lparr>php_timestamp = timestamp', php_level = level', php_message = rest,
                     php_cause_group = fst cause, php_cause_reason = fst (snd cause),
                     php_cause_action = snd (snd cause)\<rparr>))"

section \<open>Ingestion of an uploaded text file (src/models.py)\<close>

text \<open>
  \<open>level_patterns\<close>: the dict in its insertion order, each pattern ignoring case.
\<close>

definition word_rx :: "string \<Rightarrow> rx" where
  "word_rx w = seqs [Wordb, lit_ci w, Wordb]"

definition warn_rx :: rx where
  "warn_rx = seqs [Wordb, lit_ci ''WARN'', Opt (Grp 1 (lit_ci ''ING'')), Wordb]"

definition level_patterns :: "(string \<times> rx) list" where
  "level_patterns =
     [(''ERROR'', word_rx ''ERROR''),
      (''WARNING'', warn_rx),
      (''INFO'', word_rx ''INFO''),
      (''CRITICAL'', word_rx ''CRITICAL''),
      (''NOTICE'', word_rx ''NOTICE'')]"

definition ts_regex :: rx where
  "ts_regex = Seq Bol (Grp 1 iso_ts_rx)"

text \<open>
  The loop over \<open>level_patterns.items()\<close>: the level starts as INFO and the first
  pattern found in the line sets it and ends the loop.
\<close>

fun first_level :: "(string \<times> rx) list \<Rightarrow> string \<Rightarrow> string" where
  "first_level [] line = ''INFO''"
| "first_level ((lvl, patt) # ps) line =
     (if rx_search patt line \<noteq> None then upper lvl else first_level ps line)"

text \<open>
  The body of the loop of \<open>ingest_plaintext_log\<close> for one raw line: the row it inserts,
  or \<open>None\<close> for a line it skips.
\<close>

definition plaintext_row :: "datetime \<Rightarrow> string \<Rightarrow> string \<Rightarrow> string \<Rightarrow> log_row option" where
  "plaintext_row utcnow src default_host raw =
     (let line = strip raw in
      if line = [] then None
      else
        case parse_php_error_line utcnow line of
          Some php \<Rightarrow>
            Some \<lparr>timestamp = php_timestamp php, source = src, level = php_level php,
                  host = default_host, message = php_message php,
                  cause_group = php_cause_group php, cause_reason = php_cause_reason php,
                  cause_action = php_cause_action php\<rparr>
        | None \<Rightarrow>
            (let m_ts = rx_match ts_regex line;
                 timestamp' = (case m_ts of Some g \<Rightarrow> grp g 1
                               | None \<Rightarrow> datetime_utc_now utcnow);
                 message' = (case m_ts of Some g \<Rightarrow> strip (drop (length (grp g 1)) line)
                             | None \<Rightarrow> line);
                 level' = first_level level_patterns line
             in Some \<lparr>timestamp = timestamp', source = src, level = level',
                       host = default_host, message = message',
                       cause_group = None, cause_reason = None, cause_action = None\<rparr>))"

text \<open>
  \<open>ingest_plaintext_log(stream, source, default_host)\<close>: \<open>raws\<close> are the lines the
  stream yields, decoded, and \<open>utc i\<close> is the instant \<open>datetime.utcnow()\<close> returns
  while line \<open>i\<close> is processed.
\<close>

fun plaintext_rows :: "(nat \<Rightarrow> datetime) \<Rightarrow> nat \<Rightarrow> string \<Rightarrow> string \<Rightarrow> string list \<Rightarrow> store \<Rightarrow> store" where
  "plaintext_rows utc i src default_host [] db = db"
| "plaintext_rows utc i src default_host (raw # raws) db =
     plaintext_rows utc (Suc i) src default_host raws
       (case plaintext_row (utc i) src default_host raw of
          None \<Rightarrow> db
        | Some row \<Rightarrow> db @ [row])"

definition ingest_plaintext_log ::
  "(nat \<Rightarrow> datetime) \<Rightarrow> string list \<Rightarrow> string \<Rightarrow> string \<Rightarrow> store \<Rightarrow> store" where
  "ingest_plaintext_log utc raws src default_host db =
     plaintext_rows utc 0 src default_host raws db"

section \<open>Ingestion of log files (src/ingest.py)\<close>

text \<open>
  A file is the list of lines its iterator yields, each with its line end, or \<open>None\<close>
  when the path does not exist; \<open>clk i\<close> is the instant \<open>datetime.now()\<close> returns while
  line \<open>i\<close> is processed.  The result is the store as the call leaves it (every
  \<open>insert_log\<close> is committed at once) and the count returned or the exception raised.
\<close>

fun ingest_syslog_lines ::
  "(nat \<Rightarrow> datetime) \<Rightarrow> nat \<Rightarrow> string list \<Rightarrow> store \<Rightarrow> nat \<Rightarrow> store \<times> (error + nat)" where
  "ingest_syslog_lines clk i [] db count = (db, Inr count)"
| "ingest_syslog_lines clk i (ln # lns) db count =
     (case parse_syslog_line (clk i) (rstrip_nl ln) None of
        Inl e \<Rightarrow> (db, Inl e)
      | Inr None \<Rightarrow> ingest_syslog_lines clk (Suc i) lns db count
      | Inr (Some p) \<Rightarrow>
          ingest_syslog_lines clk (Suc i) lns
            (insert_log (timestamp p) (source p) (level p) (host p) (message p)
               None None None db)
            (count + 1))"

definition ingest_syslog ::
  "(nat \<Rightarrow> datetime) \<Rightarrow> string list option \<Rightarrow> store \<Rightarrow> store \<times> (error + nat)" where
  "ingest_syslog clk file db =
     (case file of
        None \<Rightarrow> (db, Inl FileNotFoundError)
      | Some lns \<Rightarrow> ingest_syslog_lines clk 0 lns db 0)"

fun ingest_zabbix_server_lines ::
  "(nat \<Rightarrow> datetime) \<Rightarrow> nat \<Rightarrow> string \<Rightarrow> string list \<Rightarrow> store \<Rightarrow> nat \<Rightarrow> store \<times> (error + nat)" where
  "ingest_zabbix_server_lines clk i hst [] db count = (db, Inr count)"
| "ingest_zabbix_server_lines clk i hst (ln # lns) db count =
     (case parse_zabbix_server_line (clk i) (rstrip_nl ln) hst of
        Inl e \<Rightarrow> (db, Inl e)
      | Inr None \<Rightarrow> ingest_zabbix_server_lines clk (Suc i) hst lns db count
      | Inr (Some p) \<Rightarrow>
          ingest_zabbix_server_lines clk (Suc i) hst lns
            (insert_log (timestamp p) (source p) (level p) (host p) (message p)
               None None None db)
            (count + 1))"

definition ingest_zabbix_server ::
  "(nat \<Rightarrow> datetime) \<Rightarrow> string list option \<Rightarrow> string \<Rightarrow> store \<Rightarrow> store \<times> (error + nat)" where
  "ingest_zabbix_server clk file hst db =
     (case file of
        None \<Rightarrow> (db, Inl FileNotFoundError)
      | Some lns \<Rightarrow> ingest_zabbix_server_lines clk 0 hst lns db 0)"

section \<open>Ingestion from the command line (src/cli.py)\<close>

definition guess_level_from_line :: "string \<Rightarrow> string" where
  "guess_level_from_line line =
     (let upper' = upper line in
      if has_sub '' CRITICAL '' upper' then ''CRITICAL''
      else if has_sub '' ERROR '' upper' then ''ERROR''
      else ''INFO'')"

definition now_str :: "datetime \<Rightarrow> string" where
  "now_str now = strftime now"

fun ingest_syslog_file_lines ::
  "(nat \<Rightarrow> datetime) \<Rightarrow> nat \<Rightarrow> string \<Rightarrow> string list \<Rightarrow> store \<Rightarrow> nat \<Rightarrow> store \<times> nat" where
  "ingest_syslog_file_lines clk i default_host [] db count = (db, count)"
| "ingest_syslog_file_lines clk i default_host (ln # lns) db count =
     (let line = rstrip_nl ln in
      if line = [] then ingest_syslog_file_lines clk (Suc i) default_host lns db count
      else
        ingest_syslog_file_lines clk (Suc i) default_host lns
          (insert_log (now_str (clk i)) ''syslog'' ''INFO'' default_host line
             None None None db)
          (count + 1))"

definition ingest_syslog_file ::
  "(nat \<Rightarrow> datetime) \<Rightarrow> string list option \<Rightarrow> string \<Rightarrow> store \<Rightarrow> store \<times> (error + nat)" where
  "ingest_syslog_file clk file default_host db =
     (case file of
        None \<Rightarrow> (db, Inl FileNotFoundError)
      | Some lns \<Rightarrow>
          (let (db', count) = ingest_syslog_file_lines clk 0 default_host lns db 0
           in (db', Inr count)))"

fun ingest_zabbix_server_log_lines ::
  "(nat \<Rightarrow> datetime) \<Rightarrow> nat \<Rightarrow> string \<Rightarrow> string list \<Rightarrow> store \<Rightarrow> nat \<Rightarrow> store \<times> nat" where
  "ingest_zabbix_server_log_lines clk i host_alias [] db count = (db, count)"
| "ingest_zabbix_server_log_lines clk i host_alias (ln # lns) db count =
     (let line = rstrip_nl ln in
      if line = [] then ingest_zabbix_server_log_lines clk (Suc i) host_alias lns db count
      else
        ingest_zabbix_server_log_lines clk (Suc i) host_alias lns
          (insert_log (now_str (clk i)) ''zabbix_server_raw'' (guess_level_from_line line)
             host_alias line None None None db)
          (count + 1))"

definition ingest_zabbix_server_log ::
  "(nat \<Rightarrow> datetime) \<Rightarrow> string list option \<Rightarrow> string \<Rightarrow> store \<Rightarrow> store \<times> (error + nat)" where
  "ingest_zabbix_server_log clk file host_alias db =
     (case file of
        None \<Rightarrow> (db, Inl FileNotFoundError)
      | Some lns \<Rightarrow>
          (let (db', count) = ingest_zabbix_server_log_lines clk 0 host_alias lns db 0
           in (db', Inr count)))"

section \<open>Query presets (src/cli.py)\<close>






section \<open>The query engine (src/analyzer.py)\<close>



















section \<open>What a pattern guarantees\<close>




section \<open>The invariant of stored records\<close>




section \<open>Stripping\<close>

lemma dropWhile_dropWhile_sub:
  "(\<And>x. Q x \<Longrightarrow> P x) \<Longrightarrow> dropWhile P (dropWhile Q xs) = dropWhile P xs"
  by (induction xs) auto

lemma rstrip_while_Nil [simp]: "rstrip_while P [] = []"
  by (simp add: rstrip_while_def)

lemma rstrip_while_Cons:
  "rstrip_while P (x # xs) =
     (if rstrip_while P xs = [] \<and> P x then [] else x # rstrip_while P xs)"
  by (auto simp: rstrip_while_def dropWhile_append split: if_splits)

lemma rstrip_while_empty_iff: "rstrip_while P xs = [] \<longleftrightarrow> list_all P xs"
  by (auto simp: rstrip_while_def dropWhile_eq_Nil_conv list_all_iff)

lemma dropWhile_rstrip_while:
  assumes "\<And>x. Q x \<Longrightarrow> P x"
  shows "dropWhile P (rstrip_while Q s) = rstrip_while Q (dropWhile P s)"
proof (induction s)
  case Nil
  then show ?case by simp
next
  case (Cons x xs)
  show ?case
  proof (cases "rstrip_while Q xs = [] \<and> Q x")
    case True
    then have "list_all P xs" and "P x"
      using assms by (auto simp: rstrip_while_empty_iff list_all_iff)
    then have "dropWhile P (x # xs) = []"
      by (simp add: list_all_iff)
    with True show ?thesis by (simp add: rstrip_while_Cons)
  next
    case False
    then have r: "rstrip_while Q (x # xs) = x # rstrip_while Q xs"
      by (simp add: rstrip_while_Cons)
    show ?thesis
    proof (cases "P x")
      case True
      then show ?thesis using r Cons.IH by simp
    next
      case False
      then show ?thesis using r by simp
    qed
  qed
qed

lemma rstrip_while_rstrip_while_sub:
  "(\<And>x. Q x \<Longrightarrow> P x) \<Longrightarrow> rstrip_while P (rstrip_while Q s) = rstrip_while P s"
  by (simp add: rstrip_while_def dropWhile_dropWhile_sub)

lemma line_feed_is_space: "x = CHR 0x0A \<Longrightarrow> is_space x"
  by (simp add: is_space_def)

text \<open>Stripping a line makes the removal of its line feeds redundant.\<close>

lemma strip_rstrip_nl: "strip (rstrip_nl s) = strip s"
proof -
  have "strip (rstrip_nl s) =
      rstrip_while is_space (rstrip_while (\<lambda>c. c = CHR 0x0A) (dropWhile is_space s))"
    using dropWhile_rstrip_while [of "\<lambda>c. c = CHR 0x0A" is_space s] line_feed_is_space
    by (simp add: strip_def rstrip_nl_def)
  also have "\<dots> = rstrip_while is_space (dropWhile is_space s)"
    using rstrip_while_rstrip_while_sub [of "\<lambda>c. c = CHR 0x0A" is_space] line_feed_is_space
    by simp
  finally show ?thesis by (simp add: strip_def)
qed

section \<open>Facts about every match\<close>











section \<open>What every stored record has\<close>























section \<open>The syslog example line\<close>









section \<open>The main message of a PHP error line\<close>














section \<open>The Zabbix parsers keep every line\<close>

text \<open>
  C5. For every input line that the Zabbix daemon pattern does not match (the parsers
  test the line without its trailing line feeds), the server parser and the proxy parser
  still return a record and never \<open>None\<close>: its source tag ends in "\_raw", its message
  is the stripped line, its timestamp is the current instant, and its level comes from
  the same \<open>guess_level\<close> that a matching line's message goes through.
\<close>

theorem zabbix_raw_fallback:
  "(rx_match ZBX_SERVER_REGEX (rstrip_nl line) = None \<longrightarrow>
      parse_zabbix_server_line now line hst =
        Inr (Some \<lparr>timestamp = isoformat now, source = ''zabbix_server_raw'',
                   level = zbx_server_guess_level (strip line), host = hst,
                   message = strip line\<rparr>)) \<and>
   (rx_match ZBX_PROXY_REGEX (rstrip_nl line) = None \<longrightarrow>
      parse_zabbix_proxy_line now line hst =
        Inr (Some \<lparr>timestamp = isoformat now, source = ''zabbix_proxy_raw'',
                   level = zbx_proxy_guess_level (strip line), host = hst,
                   message = strip line\<rparr>)) \<and>
   endswith ''zabbix_server_raw'' ''_raw'' \<and> endswith ''zabbix_proxy_raw'' ''_raw'' \<and>
   parse_zabbix_server_line now line hst \<noteq> Inr None \<and>
   parse_zabbix_proxy_line now line hst \<noteq> Inr None \<and>
   (\<forall>r. parse_zabbix_server_line now line hst = Inr (Some r) \<longrightarrow>
      level r = zbx_server_guess_level (message r)) \<and>
   (\<forall>r. parse_zabbix_proxy_line now line hst = Inr (Some r) \<longrightarrow>
      level r = zbx_proxy_guess_level (message r))"
proof -
  have e1: "endswith ''zabbix_server_raw'' ''_raw''" by code_simp
  have e2: "endswith ''zabbix_proxy_raw'' ''_raw''" by code_simp
  show ?thesis
    using e1 e2
    by (auto simp: parse_zabbix_server_line_def parse_zabbix_proxy_line_def Let_def
        strip_rstrip_nl split: option.splits sum.splits)
qed

text \<open>
  The line of a daemon that leaves out the colon after the time field, at
  2026-11-03 09:05:07.000123.
\<close>

theorem zabbix_raw_fallback_witness:
  "rx_match ZBX_SERVER_REGEX (rstrip_nl ''1234:20241127:153045.100 Starting failed'') = None \<and>
   rx_match ZBX_PROXY_REGEX (rstrip_nl ''1234:20241127:153045.100 Starting failed'') = None \<and>
   parse_zabbix_server_line
     \<lparr>dt_year = 2026, dt_month = 11, dt_day = 3, dt_hour = 9, dt_minute = 5,
      dt_second = 7, dt_microsecond = 123\<rparr>
     ''1234:20241127:153045.100 Starting failed'' ''zbx'' =
     Inr (Some \<lparr>timestamp = ''2026-11-03 09:05:07.000123'', source = ''zabbix_server_raw'',
                level = ''ERROR'', host = ''zbx'',
                message = ''1234:20241127:153045.100 Starting failed''\<rparr>) \<and>
   parse_zabbix_proxy_line
     \<lparr>dt_year = 2026, dt_month = 11, dt_day = 3, dt_hour = 9, dt_minute = 5,
      dt_second = 7, dt_microsecond = 123\<rparr>
     ''1234:20241127:153045.100 Starting failed'' ''zbx'' =
     Inr (Some \<lparr>timestamp = ''2026-11-03 09:05:07.000123'', source = ''zabbix_proxy_raw'',
                level = ''ERROR'', host = ''zbx'',
                message = ''1234:20241127:153045.100 Starting failed''\<rparr>)"
proof -
  have a: "rx_match ZBX_SERVER_REGEX
      (rstrip_nl ''1234:20241127:153045.100 Starting failed'') = None"
    by code_simp
  have b: "rx_match ZBX_PROXY_REGEX
      (rstrip_nl ''1234:20241127:153045.100 Starting failed'') = None"
    by code_simp
  have t: "isoformat \<lparr>dt_year = 2026, dt_month = 11, dt_day = 3, dt_hour = 9,
      dt_minute = 5, dt_second = 7, dt_microsecond = 123\<rparr> = ''2026-11-03 09:05:07.000123''"
    by code_simp
  have s: "strip ''1234:20241127:153045.100 Starting failed'' =
      ''1234:20241127:153045.100 Starting failed''"
    by code_simp
  have l1: "zbx_server_guess_level ''1234:20241127:153045.100 Starting failed'' = ''ERROR''"
    by code_simp
  have l2: "zbx_proxy_guess_level ''1234:20241127:153045.100 Starting failed'' = ''ERROR''"
    by code_simp
  show ?thesis
    using zabbix_raw_fallback [of "''1234:20241127:153045.100 Starting failed''"
        "\<lparr>dt_year = 2026, dt_month = 11, dt_day = 3, dt_hour = 9, dt_minute = 5,
          dt_second = 7, dt_microsecond = 123\<rparr>" "''zbx''"]
      a b t s l1 l2
    by simp
qed

section \<open>The cURL example line\<close>

text \<open>
  C6. For the PHP line "[02-Oct-2025 15:59:40 Europe/Berlin] PHP Notice: cURL error: Failed
  to connect to 192.168.0.204 port 8443: Connection refused in /x.php" the parser's output
  has level "WARNING" (a PHP Notice maps to WARNING, not INFO), cause group "network",
  and a cause reason that contains both "192.168.0.204:8443" and "Connection refused".
\<close>

theorem php_curl_example:
  "parse_php_error_line utcnow
     ''[02-Oct-2025 15:59:40 Europe/Berlin] PHP Notice: cURL error: Failed to connect to 192.168.0.204 port 8443: Connection refused in /x.php'' =
   Some \<lparr>php_timestamp = ''2025-10-02 15:59:40'', php_level = ''WARNING'',
      php_message = ''cURL error: Failed to connect to 192.168.0.204 port 8443: Connection refused in /x.php'',
      php_cause_group = Some ''network'',
      php_cause_reason = Some ''cURL falhou ao conectar em 192.168.0.204:8443 (Connection refused)'',
      php_cause_action = Some (''Verificar servi'' @ [CHR 0xE7] @ ''o/porta 8443 em 192.168.0.204 (controller / backend) ou regras de firewall'')\<rparr> \<and>
   has_sub ''192.168.0.204:8443''
     ''cURL falhou ao conectar em 192.168.0.204:8443 (Connection refused)'' \<and>
   has_sub ''Connection refused''
     ''cURL falhou ao conectar em 192.168.0.204:8443 (Connection refused)'' \<and>
   php_internal_level ''Notice'' = ''WARNING''"
  by code_simp

text \<open>The same line with the clock at 2026-11-03 09:05:07.\<close>

theorem php_curl_example_witness:
  "php_level (the (parse_php_error_line
     \<lparr>dt_year = 2026, dt_month = 11, dt_day = 3, dt_hour = 9, dt_minute = 5,
      dt_second = 7, dt_microsecond = 123\<rparr>
     ''[02-Oct-2025 15:59:40 Europe/Berlin] PHP Notice: cURL error: Failed to connect to 192.168.0.204 port 8443: Connection refused in /x.php'')) = ''WARNING'' \<and>
   php_cause_group (the (parse_php_error_line
     \<lparr>dt_year = 2026, dt_month = 11, dt_day = 3, dt_hour = 9, dt_minute = 5,
      dt_second = 7, dt_microsecond = 123\<rparr>
     ''[02-Oct-2025 15:59:40 Europe/Berlin] PHP Notice: cURL error: Failed to connect to 192.168.0.204 port 8443: Connection refused in /x.php'')) = Some ''network''"
  using php_curl_example [of "\<lparr>dt_year = 2026, dt_month = 11, dt_day = 3, dt_hour = 9,
      dt_minute = 5, dt_second = 7, dt_microsecond = 123\<rparr>"]
  by simp

section \<open>Properties of the preset merge\<close>



section \<open>The sniffer leaves the stream as it found it\<close>

lemma is_probably_log_stream: "snd (is_probably_log decode st fn mb) = st"
  by (simp add: is_probably_log_def seek_def tell_def read_def Let_def split: prod.splits)

text \<open>
  C8. Calling \<open>is_probably_log\<close> twice in succession on the same unconsumed stream (same
  content, same optional file name) yields the same boolean both times, and each call
  leaves the read position of the stream where it was before the call.
\<close>

theorem is_probably_log_idempotent:
  "snd (is_probably_log decode st fn mb) = st \<and>
   tell (snd (is_probably_log decode st fn mb)) = tell st \<and>
   fst (is_probably_log decode (snd (is_probably_log decode st fn mb)) fn mb) =
     fst (is_probably_log decode st fn mb) \<and>
   tell (snd (is_probably_log decode (snd (is_probably_log decode st fn mb)) fn mb)) =
     tell st"
  by (simp add: is_probably_log_stream)

text \<open>
  A stream of the bytes of "2024-01-01 10:00:00 ERROR boom", a line feed and "hello",
  read from position 3 on, with the file name "a.LOG".
\<close>

theorem is_probably_log_idempotent_witness:
  "is_probably_log (map char_of)
     \<lparr>content = Bytes [50, 48, 50, 52, 45, 48, 49, 45, 48, 49, 32, 49, 48, 58, 48, 48, 58,
        48, 48, 32, 69, 82, 82, 79, 82, 32, 98, 111, 111, 109, 10, 104, 101, 108, 108, 111],
      pos = 3\<rparr> (Some ''a.LOG'') 8192 =
     (True,
      \<lparr>content = Bytes [50, 48, 50, 52, 45, 48, 49, 45, 48, 49, 32, 49, 48, 58, 48, 48, 58,
        48, 48, 32, 69, 82, 82, 79, 82, 32, 98, 111, 111, 109, 10, 104, 101, 108, 108, 111],
       pos = 3\<rparr>) \<and>
   fst (is_probably_log (map char_of)
     (snd (is_probably_log (map char_of)
        \<lparr>content = Bytes [50, 48, 50, 52, 45, 48, 49, 45, 48, 49, 32, 49, 48, 58, 48, 48,
           58, 48, 48, 32, 69, 82, 82, 79, 82, 32, 98, 111, 111, 109, 10, 104, 101, 108, 108,
           111],
         pos = 3\<rparr> (Some ''a.LOG'') 8192))
     (Some ''a.LOG'') 8192) = True"
proof -
  have v: "fst (is_probably_log (map char_of)
      \<lparr>content = Bytes [50, 48, 50, 52, 45, 48, 49, 45, 48, 49, 32, 49, 48, 58, 48, 48, 58,
         48, 48, 32, 69, 82, 82, 79, 82, 32, 98, 111, 111, 109, 10, 104, 101, 108, 108, 111],
       pos = 3\<rparr> (Some ''a.LOG'') 8192) = True"
    by code_simp
  show ?thesis
    using is_probably_log_idempotent [of "map char_of"
        "\<lparr>content = Bytes [50, 48, 50, 52, 45, 48, 49, 45, 48, 49, 32, 49, 48, 58, 48, 48,
           58, 48, 48, 32, 69, 82, 82, 79, 82, 32, 98, 111, 111, 109, 10, 104, 101, 108, 108,
           111],
          pos = 3\<rparr>" "Some ''a.LOG''" 8192] v
    by (simp add: prod_eq_iff)
qed

section \<open>The contains criterion is a LIKE pattern\<close>




section \<open>The fallback severity classifier\<close>

lemma level_names:
  "upper ''ERROR'' = ''ERROR''" "upper ''WARNING'' = ''WARNING''" "upper ''INFO'' = ''INFO''"
  "upper ''CRITICAL'' = ''CRITICAL''" "upper ''NOTICE'' = ''NOTICE''"
  by code_simp+

lemma first_level_order:
  "first_level level_patterns line =
     (if rx_search (word_rx ''ERROR'') line \<noteq> None then ''ERROR''
      else if rx_search warn_rx line \<noteq> None then ''WARNING''
      else if rx_search (word_rx ''INFO'') line \<noteq> None then ''INFO''
      else if rx_search (word_rx ''CRITICAL'') line \<noteq> None then ''CRITICAL''
      else if rx_search (word_rx ''NOTICE'') line \<noteq> None then ''NOTICE''
      else ''INFO'')"
  by (simp add: level_patterns_def level_names)

text \<open>
  C10 (as amended). The fallback severity classifier of the upload ingestion is
  deterministic: it tries the whole-word, case-insensitive patterns in the order ERROR,
  WARNING, INFO, CRITICAL, NOTICE of the dict and assigns the first level whose pattern
  is found in the line, INFO when none is.  So for every non-blank line that the PHP
  error-log parser declines and that holds both INFO and CRITICAL as whole words but
  neither ERROR nor WARN(ING), the stored level is "INFO", not "CRITICAL".  (The
  patterns are searched in the stripped line.)
\<close>

theorem fallback_level_order:
  "map fst level_patterns = [''ERROR'', ''WARNING'', ''INFO'', ''CRITICAL'', ''NOTICE''] \<and>
   first_level level_patterns line =
     (if rx_search (word_rx ''ERROR'') line \<noteq> None then ''ERROR''
      else if rx_search warn_rx line \<noteq> None then ''WARNING''
      else if rx_search (word_rx ''INFO'') line \<noteq> None then ''INFO''
      else if rx_search (word_rx ''CRITICAL'') line \<noteq> None then ''CRITICAL''
      else if rx_search (word_rx ''NOTICE'') line \<noteq> None then ''NOTICE''
      else ''INFO'') \<and>
   (strip raw \<noteq> [] \<and> parse_php_error_line (utc 0) (strip raw) = None \<and>
    rx_search (word_rx ''INFO'') (strip raw) \<noteq> None \<and>
    rx_search (word_rx ''CRITICAL'') (strip raw) \<noteq> None \<and>
    rx_search (word_rx ''ERROR'') (strip raw) = None \<and>
    rx_search warn_rx (strip raw) = None \<longrightarrow>
    (\<exists>row. ingest_plaintext_log utc [raw] src default_host db = db @ [row] \<and>
           level row = ''INFO'' \<and> cause_group row = None))"
proof (intro conjI impI)
  show "map fst level_patterns = [''ERROR'', ''WARNING'', ''INFO'', ''CRITICAL'', ''NOTICE'']"
    by (simp add: level_patterns_def)
next
  show "first_level level_patterns line =
     (if rx_search (word_rx ''ERROR'') line \<noteq> None then ''ERROR''
      else if rx_search warn_rx line \<noteq> None then ''WARNING''
      else if rx_search (word_rx ''INFO'') line \<noteq> None then ''INFO''
      else if rx_search (word_rx ''CRITICAL'') line \<noteq> None then ''CRITICAL''
      else if rx_search (word_rx ''NOTICE'') line \<noteq> None then ''NOTICE''
      else ''INFO'')"
    by (rule first_level_order)
next
  assume a: "strip raw \<noteq> [] \<and> parse_php_error_line (utc 0) (strip raw) = None \<and>
    rx_search (word_rx ''INFO'') (strip raw) \<noteq> None \<and>
    rx_search (word_rx ''CRITICAL'') (strip raw) \<noteq> None \<and>
    rx_search (word_rx ''ERROR'') (strip raw) = None \<and>
    rx_search warn_rx (strip raw) = None"
  then have "first_level level_patterns (strip raw) = ''INFO''"
    by (simp add: first_level_order)
  then show "\<exists>row. ingest_plaintext_log utc [raw] src default_host db = db @ [row] \<and>
           level row = ''INFO'' \<and> cause_group row = None"
    using a by (simp add: ingest_plaintext_log_def plaintext_row_def Let_def)
qed

text \<open>The line "job INFO then CRITICAL" uploaded into an empty store.\<close>

theorem fallback_level_order_witness:
  "strip ''job INFO then CRITICAL'' \<noteq> [] \<and>
   parse_php_error_line
     \<lparr>dt_year = 2026, dt_month = 11, dt_day = 3, dt_hour = 9, dt_minute = 5,
      dt_second = 7, dt_microsecond = 123\<rparr> (strip ''job INFO then CRITICAL'') = None \<and>
   rx_search (word_rx ''INFO'') (strip ''job INFO then CRITICAL'') \<noteq> None \<and>
   rx_search (word_rx ''CRITICAL'') (strip ''job INFO then CRITICAL'') \<noteq> None \<and>
   rx_search (word_rx ''ERROR'') (strip ''job INFO then CRITICAL'') = None \<and>
   rx_search warn_rx (strip ''job INFO then CRITICAL'') = None \<and>
   (\<exists>row. ingest_plaintext_log
       (\<lambda>i. \<lparr>dt_year = 2026, dt_month = 11, dt_day = 3, dt_hour = 9, dt_minute = 5,
             dt_second = 7, dt_microsecond = 123\<rparr>)
       [''job INFO then CRITICAL''] ''upload:a.log'' ''upload-host'' [] = [] @ [row] \<and>
     level row = ''INFO'' \<and> cause_group row = None)"
proof -
  have h: "strip ''job INFO then CRITICAL'' \<noteq> []"
    "parse_php_error_line
       \<lparr>dt_year = 2026, dt_month = 11, dt_day = 3, dt_hour = 9, dt_minute = 5,
        dt_second = 7, dt_microsecond = 123\<rparr> (strip ''job INFO then CRITICAL'') = None"
    "rx_search (word_rx ''INFO'') (strip ''job INFO then CRITICAL'') \<noteq> None"
    "rx_search (word_rx ''CRITICAL'') (strip ''job INFO then CRITICAL'') \<noteq> None"
    "rx_search (word_rx ''ERROR'') (strip ''job INFO then CRITICAL'') = None"
    "rx_search warn_rx (strip ''job INFO then CRITICAL'') = None"
    by code_simp+
  show ?thesis
    using fallback_level_order [of "''job INFO then CRITICAL''" "''job INFO then CRITICAL''"
        "\<lambda>i. \<lparr>dt_year = 2026, dt_month = 11, dt_day = 3, dt_hour = 9, dt_minute = 5,
              dt_second = 7, dt_microsecond = 123\<rparr>" "''upload:a.log''" "''upload-host''" "[]"]
      h
    by simp
qed

text \<open>
  Without the restriction to lines the PHP parser declines the claim fails: a PHP Notice
  line with the words INFO and CRITICAL, and neither ERROR nor WARN, is stored with
  level "WARNING".
\<close>

theorem php_notice_level_counterexample:
  "ingest_plaintext_log
     (\<lambda>i. \<lparr>dt_year = 2026, dt_month = 11, dt_day = 3, dt_hour = 9, dt_minute = 5,
           dt_second = 7, dt_microsecond = 123\<rparr>)
     [''[02-Oct-2025 15:59:40 UTC] PHP Notice: INFO CRITICAL''] ''upload:a.log''
     ''upload-host'' [] =
     [\<lparr>timestamp = ''2025-10-02 15:59:40'', source = ''upload:a.log'', level = ''WARNING'',
       host = ''upload-host'', message = ''INFO CRITICAL'',
       cause_group = Some ''aplicacao'', cause_reason = Some ''INFO CRITICAL'',
       cause_action = Some (''Avaliar stack trace e corrigir causa raiz no c'' @
                            [CHR 0xF3] @ ''digo PHP'')\<rparr>] \<and>
   strip ''[02-Oct-2025 15:59:40 UTC] PHP Notice: INFO CRITICAL'' \<noteq> [] \<and>
   rx_search (word_rx ''INFO'') ''[02-Oct-2025 15:59:40 UTC] PHP Notice: INFO CRITICAL'' \<noteq> None \<and>
   rx_search (word_rx ''CRITICAL'') ''[02-Oct-2025 15:59:40 UTC] PHP Notice: INFO CRITICAL''
     \<noteq> None \<and>
   rx_search (word_rx ''ERROR'') ''[02-Oct-2025 15:59:40 UTC] PHP Notice: INFO CRITICAL'' = None \<and>
   rx_search warn_rx ''[02-Oct-2025 15:59:40 UTC] PHP Notice: INFO CRITICAL'' = None"
  by code_simp

section \<open>Blank lines\<close>

text \<open>
  C1. A blank line should make no ingestion entry point write a record.  On a file whose
  only line is empty, \<open>ingest_zabbix_server\<close> stores a record with an empty message
  and counts it: its parser never returns \<open>None\<close>, so the test \<open>if not parsed\<close> never
  skips.  The syslog ingestion, the upload ingestion and the Zabbix ingestion of the
  command line store nothing for the same line.  The ingestion commands of the command
  line skip the empty line only: a line of blanks is stored as it is.
\<close>

theorem blank_line_zabbix_server:
  "ingest_zabbix_server
     (\<lambda>i. \<lparr>dt_year = 2026, dt_month = 11, dt_day = 3, dt_hour = 9, dt_minute = 5,
           dt_second = 7, dt_microsecond = 123\<rparr>)
     (Some ['''' @ [CHR 0x0A]]) ''zabbix-server'' [] =
     ([\<lparr>timestamp = ''2026-11-03 09:05:07.000123'', source = ''zabbix_server_raw'',
        level = ''INFO'', host = ''zabbix-server'', message = [], cause_group = None,
        cause_reason = None, cause_action = None\<rparr>], Inr 1) \<and>
   ingest_syslog
     (\<lambda>i. \<lparr>dt_year = 2026, dt_month = 11, dt_day = 3, dt_hour = 9, dt_minute = 5,
           dt_second = 7, dt_microsecond = 123\<rparr>)
     (Some ['''' @ [CHR 0x0A]]) [] = ([], Inr 0) \<and>
   ingest_plaintext_log
     (\<lambda>i. \<lparr>dt_year = 2026, dt_month = 11, dt_day = 3, dt_hour = 9, dt_minute = 5,
           dt_second = 7, dt_microsecond = 123\<rparr>)
     ['''' @ [CHR 0x0A]] ''upload:a.log'' ''upload-host'' [] = [] \<and>
   ingest_zabbix_server_log
     (\<lambda>i. \<lparr>dt_year = 2026, dt_month = 11, dt_day = 3, dt_hour = 9, dt_minute = 5,
           dt_second = 7, dt_microsecond = 123\<rparr>)
     (Some ['''' @ [CHR 0x0A]]) ''zabbix-server'' [] = ([], Inr 0) \<and>
   ingest_syslog_file
     (\<lambda>i. \<lparr>dt_year = 2026, dt_month = 11, dt_day = 3, dt_hour = 9, dt_minute = 5,
           dt_second = 7, dt_microsecond = 123\<rparr>)
     (Some [''   '' @ [CHR 0x0A]]) ''localhost'' [] =
     ([\<lparr>timestamp = ''2026-11-03 09:05:07'', source = ''syslog'', level = ''INFO'',
        host = ''localhost'', message = ''   '', cause_group = None, cause_reason = None,
        cause_action = None\<rparr>], Inr 1)"
  by code_simp

text \<open>The store holds one record after the blank line.\<close>

theorem blank_line_zabbix_server_witness:
  "length (fst (ingest_zabbix_server
     (\<lambda>i. \<lparr>dt_year = 2026, dt_month = 11, dt_day = 3, dt_hour = 9, dt_minute = 5,
           dt_second = 7, dt_microsecond = 123\<rparr>)
     (Some ['''' @ [CHR 0x0A]]) ''zabbix-server'' [])) = 1"
  using blank_line_zabbix_server by simp

end
